theory Spec2Isabelle
  imports Main
begin

section \<open>Python values, exceptions and the operations the tools apply to them\<close>

text \<open>
  The tools of \<^verbatim>\<open>tools.py\<close> handle whatever \<^verbatim>\<open>response.json()\<close> hands them, and
  the callback of \<^verbatim>\<open>agents.py\<close> handles whatever the session state holds. Both are
  dynamically typed values. Numbers are integers here (floating point is outside the
  model; the tools only carry numbers through). Text is a \<open>string\<close>; the characters
  outside ASCII that the source's literals contain are written as their UTF-8 bytes, and
  case conversion acts on the ASCII letters.
\<close>

datatype pyval =
    PNone
  | PBool bool
  | PInt int
  | PStr string
  | PList "pyval list"
  | PDict "(string \<times> pyval) list"

text \<open>
  The three exception classes the handlers of \<^verbatim>\<open>tools.py\<close> tell apart:
  \<^verbatim>\<open>requests.exceptions.HTTPError\<close> (with \<^verbatim>\<open>e.response.status_code\<close>), any other
  \<^verbatim>\<open>requests.exceptions.RequestException\<close>, and any other \<^verbatim>\<open>Exception\<close>. The string is
  \<^verbatim>\<open>str(e)\<close>.
\<close>

datatype pyexn =
    HTTPError nat string
  | RequestException string
  | OtherException string

fun str_exn :: "pyexn \<Rightarrow> string" where
  "str_exn (HTTPError _ s) = s"
| "str_exn (RequestException s) = s"
| "str_exn (OtherException s) = s"

definition quoted :: "string \<Rightarrow> string" where
  "quoted s = [CHR 0x27] @ s @ [CHR 0x27]"

fun type_name :: "pyval \<Rightarrow> string" where
  "type_name PNone = ''NoneType''"
| "type_name (PBool _) = ''bool''"
| "type_name (PInt _) = ''int''"
| "type_name (PStr _) = ''str''"
| "type_name (PList _) = ''list''"
| "type_name (PDict _) = ''dict''"

definition digit_char :: "nat \<Rightarrow> char" where
  "digit_char d = ''0123456789'' ! d"

fun str_nat :: "nat \<Rightarrow> string" where
  "str_nat n = (if n < 10 then [digit_char n] else str_nat (n div 10) @ [digit_char (n mod 10)])"

declare str_nat.simps [simp del]

definition str_int :: "int \<Rightarrow> string" where
  "str_int i = (if i < 0 then ''-'' @ str_nat (nat (- i)) else str_nat (nat i))"

definition lower_char :: "char \<Rightarrow> char" where
  "lower_char c =
     (case map_of (zip ''ABCDEFGHIJKLMNOPQRSTUVWXYZ'' ''abcdefghijklmnopqrstuvwxyz'') c of
        Some d \<Rightarrow> d | None \<Rightarrow> c)"

definition upper_char :: "char \<Rightarrow> char" where
  "upper_char c =
     (case map_of (zip ''abcdefghijklmnopqrstuvwxyz'' ''ABCDEFGHIJKLMNOPQRSTUVWXYZ'') c of
        Some d \<Rightarrow> d | None \<Rightarrow> c)"

definition lower :: "string \<Rightarrow> string" where
  "lower s = map lower_char s"

definition upper :: "string \<Rightarrow> string" where
  "upper s = map upper_char s"



text \<open>\<^verbatim>\<open>x.get(key, default)\<close>: only a dict has the method.\<close>

fun py_get :: "pyval \<Rightarrow> string \<Rightarrow> pyval \<Rightarrow> pyexn + pyval" where
  "py_get (PDict kvs) k d = Inr (case map_of kvs k of Some v \<Rightarrow> v | None \<Rightarrow> d)"
| "py_get x k d =
     Inl (OtherException (quoted (type_name x) @ '' object has no attribute '' @ quoted ''get''))"

text \<open>\<^verbatim>\<open>x[key]\<close> with a string key.\<close>

fun py_item :: "pyval \<Rightarrow> string \<Rightarrow> pyexn + pyval" where
  "py_item (PDict kvs) k =
     (case map_of kvs k of Some v \<Rightarrow> Inr v | None \<Rightarrow> Inl (OtherException (quoted k)))"
| "py_item (PList _) k =
     Inl (OtherException ''list indices must be integers or slices, not str'')"
| "py_item (PStr _) k =
     Inl (OtherException (''string indices must be integers, not '' @ quoted ''str''))"
| "py_item x k =
     Inl (OtherException (quoted (type_name x) @ '' object is not subscriptable''))"




text \<open>The elements a \<^verbatim>\<open>for\<close> loop visits.\<close>

fun py_iter :: "pyval \<Rightarrow> pyexn + pyval list" where
  "py_iter (PList vs) = Inr vs"
| "py_iter (PDict kvs) = Inr (map (\<lambda>kv. PStr (fst kv)) kvs)"
| "py_iter (PStr s) = Inr (map (\<lambda>c. PStr [c]) s)"
| "py_iter x = Inl (OtherException (quoted (type_name x) @ '' object is not iterable''))"

text \<open>\<^verbatim>\<open>x[:n]\<close>.\<close>

fun py_slice_to :: "nat \<Rightarrow> pyval \<Rightarrow> pyexn + pyval" where
  "py_slice_to n (PList vs) = Inr (PList (take n vs))"
| "py_slice_to n (PStr s) = Inr (PStr (take n s))"
| "py_slice_to n (PDict _) = Inl (OtherException (''unhashable type: '' @ quoted ''slice''))"
| "py_slice_to n x =
     Inl (OtherException (quoted (type_name x) @ '' object is not subscriptable''))"

text \<open>\<^verbatim>\<open>", ".join(x)\<close>: every element visited must be a string.\<close>

fun join_strs :: "nat \<Rightarrow> pyval list \<Rightarrow> pyexn + string" where
  "join_strs i [] = Inr []"
| "join_strs i (PStr s # rest) =
     (case join_strs (Suc i) rest of
        Inl e \<Rightarrow> Inl e
      | Inr t \<Rightarrow> Inr (if rest = [] then s else s @ '', '' @ t))"
| "join_strs i (v # rest) =
     Inl (OtherException (''sequence item '' @ str_nat i @ '': expected str instance, ''
                          @ type_name v @ '' found''))"

definition py_join :: "pyval \<Rightarrow> pyexn + string" where
  "py_join x =
     (case py_iter x of
        Inl _ \<Rightarrow> Inl (OtherException ''can only join an iterable'')
      | Inr vs \<Rightarrow> join_strs 0 vs)"

section \<open>HTTP as the tools see it\<close>

datatype request =
    GET string "(string \<times> pyval) list" nat
  | POST string pyval nat

text \<open>
  A response: its status code, the text of the \<^verbatim>\<open>HTTPError\<close> that
  \<^verbatim>\<open>raise_for_status()\<close> raises for it, and what \<^verbatim>\<open>.json()\<close> gives (the parsed
  body, or the exception of the decoder).
\<close>

record response =
  status_code :: nat
  error_str :: string
  json_body :: "pyexn + pyval"

text \<open>
  The network: what \<^verbatim>\<open>requests.get\<close> / \<^verbatim>\<open>requests.post\<close> does for a request,
  either raising or returning a response.
\<close>

type_synonym world = "request \<Rightarrow> pyexn + response"

text \<open>
  A computation that may raise and that records the requests it sends, in order.
\<close>

type_synonym 'a io = "request list \<Rightarrow> (pyexn + 'a) \<times> request list"

definition io_return :: "'a \<Rightarrow> 'a io" where
  "io_return x = (\<lambda>log. (Inr x, log))"

definition io_lift :: "pyexn + 'a \<Rightarrow> 'a io" where
  "io_lift r = (\<lambda>log. (r, log))"

definition io_bind :: "'a io \<Rightarrow> ('a \<Rightarrow> 'b io) \<Rightarrow> 'b io" where
  "io_bind m f =
     (\<lambda>log. case m log of (Inl e, log') \<Rightarrow> (Inl e, log') | (Inr x, log') \<Rightarrow> f x log')"

definition try_except :: "'a io \<Rightarrow> (pyexn \<Rightarrow> 'a io) \<Rightarrow> 'a io" where
  "try_except m h =
     (\<lambda>log. case m log of (Inl e, log') \<Rightarrow> h e log' | (Inr x, log') \<Rightarrow> (Inr x, log'))"

definition send :: "world \<Rightarrow> request \<Rightarrow> response io" where
  "send w rq = (\<lambda>log. (w rq, log @ [rq]))"

definition raise_for_status :: "response \<Rightarrow> pyexn + unit" where
  "raise_for_status r =
     (if 400 \<le> status_code r \<and> status_code r < 600
      then Inl (HTTPError (status_code r) (error_str r)) else Inr ())"

text \<open>Running a tool: it starts with no request sent.\<close>

definition run :: "'a io \<Rightarrow> (pyexn + 'a) \<times> request list" where
  "run m = m []"

section \<open>The tools of \<^verbatim>\<open>tools.py\<close>\<close>

text \<open>A loop that builds a list and stops at the first exception.\<close>

fun for_each :: "('a \<Rightarrow> pyexn + 'b) \<Rightarrow> 'a list \<Rightarrow> pyexn + 'b list" where
  "for_each f [] = Inr []"
| "for_each f (x # xs) =
     (case f x of
        Inl e \<Rightarrow> Inl e
      | Inr y \<Rightarrow> (case for_each f xs of Inl e \<Rightarrow> Inl e | Inr ys \<Rightarrow> Inr (y # ys)))"

definition sum_bind :: "pyexn + 'a \<Rightarrow> ('a \<Rightarrow> pyexn + 'b) \<Rightarrow> pyexn + 'b" where
  "sum_bind r f = (case r of Inl e \<Rightarrow> Inl e | Inr x \<Rightarrow> f x)"

subsection \<open>\<^verbatim>\<open>search_city_info\<close>\<close>

definition source_entry :: "pyval \<Rightarrow> pyexn + pyval" where
  "source_entry source =
     sum_bind (py_get source ''title'' (PStr [])) (\<lambda>title.
     sum_bind (py_get source ''url'' (PStr [])) (\<lambda>url.
     sum_bind (py_get source ''content'' (PStr [])) (\<lambda>content.
     sum_bind (py_slice_to 200 content) (\<lambda>truncated.
       Inr (PDict [(''title'', title), (''url'', url), (''content'', truncated)])))))"

definition tavily_request :: "string \<Rightarrow> string \<Rightarrow> request" where
  "tavily_request api_key city =
     POST ''https://api.tavily.com/search''
       (PDict [(''api_key'', PStr api_key),
               (''query'', PStr (''interesting facts about '' @ city @ '' city tourist information'')),
               (''search_depth'', PStr ''basic''),
               (''include_answer'', PBool True),
               (''max_results'', PInt 5)])
       15"

definition search_city_info_try :: "world \<Rightarrow> string \<Rightarrow> string \<Rightarrow> pyval io" where
  "search_city_info_try w api_key city =
     io_bind (send w (tavily_request api_key city)) (\<lambda>response.
     io_bind (io_lift (raise_for_status response)) (\<lambda>_.
     io_bind (io_lift (json_body response)) (\<lambda>data.
     io_bind (io_lift (py_get data ''answer'' (PStr ''No summary available''))) (\<lambda>summary.
     io_bind (io_lift (py_get data ''results'' (PList []))) (\<lambda>results.
     io_bind (io_lift (py_slice_to 3 results)) (\<lambda>top.
     io_bind (io_lift (py_iter top)) (\<lambda>sources.
     io_bind (io_lift (for_each source_entry sources)) (\<lambda>entries.
       io_return (PDict [(''city'', PStr city), (''summary'', summary),
                         (''sources'', PList entries)])))))))))"

text \<open>
  The second argument is what \<^verbatim>\<open>os.getenv("TAVILY_API_KEY")\<close> returns: \<open>None\<close> when the
  variable is unset. \<^verbatim>\<open>not api_key\<close> also holds for the empty string.
\<close>

definition search_city_info :: "world \<Rightarrow> string option \<Rightarrow> string \<Rightarrow> pyval io" where
  "search_city_info w getenv_key city =
     (case getenv_key of
        None \<Rightarrow> io_return (PDict [(''error'', PStr ''TAVILY_API_KEY not set in .env file'')])
      | Some api_key \<Rightarrow>
          if api_key = []
          then io_return (PDict [(''error'', PStr ''TAVILY_API_KEY not set in .env file'')])
          else try_except (search_city_info_try w api_key city)
                 (\<lambda>e. case e of
                    OtherException s \<Rightarrow>
                      io_return (PDict [(''error'', PStr (''Unexpected error: '' @ s)),
                                        (''city'', PStr city)])
                  | _ \<Rightarrow>
                      io_return (PDict [(''error'', PStr (''Tavily API error: '' @ str_exn e)),
                                        (''city'', PStr city)])))"

subsection \<open>\<^verbatim>\<open>get_public_holidays\<close>\<close>

definition holiday_entry :: "pyval \<Rightarrow> pyexn + pyval" where
  "holiday_entry holiday =
     sum_bind (py_get holiday ''date'' (PStr [])) (\<lambda>date.
     sum_bind (py_get holiday ''name'' (PStr [])) (\<lambda>name_default.
     sum_bind (py_get holiday ''localName'' name_default) (\<lambda>name.
     sum_bind (py_get holiday ''name'' (PStr [])) (\<lambda>name_english.
     sum_bind (py_get holiday ''fixed'' (PBool False)) (\<lambda>fixed.
     sum_bind (py_get holiday ''types'' (PList [])) (\<lambda>types.
     sum_bind (py_join types) (\<lambda>joined.
       Inr (PDict [(''date'', date), (''name'', name), (''name_english'', name_english),
                   (''fixed'', fixed), (''type'', PStr joined)]))))))))"

definition holidays_request :: "string \<Rightarrow> int \<Rightarrow> request" where
  "holidays_request country_code year =
     GET (''https://date.nager.at/api/v3/publicholidays/'' @ str_int year @ ''/''
          @ upper country_code) [] 10"

definition get_public_holidays_try :: "world \<Rightarrow> string \<Rightarrow> int \<Rightarrow> pyval io" where
  "get_public_holidays_try w country_code year =
     io_bind (send w (holidays_request country_code year)) (\<lambda>response.
     io_bind (io_lift (raise_for_status response)) (\<lambda>_.
     io_bind (io_lift (json_body response)) (\<lambda>holidays.
     io_bind (io_lift (py_iter holidays)) (\<lambda>hs.
     io_bind (io_lift (for_each holiday_entry hs)) (\<lambda>result.
       io_return (PList result))))))"

definition not_found_message :: "string \<Rightarrow> string" where
  "not_found_message country_code =
     ''Country code '' @ quoted country_code
     @ '' not found. Use ISO 3166-1 alpha-2 codes like: MA (Morocco), FR (France), US (USA), DE (Germany), GB (UK), JP (Japan)''"

definition get_public_holidays :: "world \<Rightarrow> string \<Rightarrow> int \<Rightarrow> pyval io" where
  "get_public_holidays w country_code year =
     try_except (get_public_holidays_try w country_code year)
       (\<lambda>e. case e of
          HTTPError code s \<Rightarrow>
            if code = 404
            then io_return (PList [PDict [(''error'', PStr (not_found_message country_code))]])
            else io_return (PList [PDict [(''error'', PStr (''HTTP error: '' @ s))]])
        | _ \<Rightarrow>
            io_return (PList [PDict [(''error'', PStr (''Unexpected error: '' @ str_exn e))]]))"

subsection \<open>\<^verbatim>\<open>get_weather\<close>\<close>










subsection \<open>\<^verbatim>\<open>search_scholarships\<close>\<close>

definition scholarship :: "string \<Rightarrow> string \<Rightarrow> string \<Rightarrow> string \<Rightarrow> string \<Rightarrow> pyval" where
  "scholarship name amount deadline requirements description =
     PDict [(''name'', PStr name), (''amount'', PStr amount), (''deadline'', PStr deadline),
            (''requirements'', PStr requirements), (''description'', PStr description)]"

definition euro :: string where
  "euro = [CHR 0xE2, CHR 0x82, CHR 0xAC]"

definition pound :: string where
  "pound = [CHR 0xC2, CHR 0xA3]"

definition france_scholarships :: "pyval list" where
  "france_scholarships =
     [scholarship ''Eiffel Excellence Scholarship'' (euro @ ''1,700/month + tuition'')
        ''January 10, 2025'' ''Under 25 for Master's, excellent academics''
        ''French government scholarship for international students'',
      scholarship ([CHR 0xC3, CHR 0x89] @ ''mile Boutmy Scholarship (Sciences Po)'')
        (euro @ ''5,000-10,000/year'')
        ''February 23, 2025'' ''Non-EU, excellent academic record''
        ''For undergraduate and master's students at Sciences Po Paris'',
      scholarship ''ENS Paris-Saclay International Scholarship'' (euro @ ''1,000/month'')
        ''December 1, 2024'' ''Master's level, research focus''
        ''For international students in sciences'',
      scholarship ''HEC Paris MBA Scholarship'' (''Up to '' @ euro @ ''30,000'')
        ''Rolling'' ''MBA admission, leadership experience''
        ''Merit-based scholarship for MBA students'',
      scholarship ''INSEAD Scholarship'' (euro @ ''10,000-50,000'')
        ''Rolling'' ''MBA/Master's admission''
        ''Various scholarships for INSEAD programs'']"

definition qatar_scholarships :: "pyval list" where
  "qatar_scholarships =
     [scholarship ''Qatar Foundation Scholarship'' ''Full tuition + living expenses''
        ''February 28, 2025'' ''Excellent academics, leadership''
        ''For international students studying in Qatar'',
      scholarship ''Hamad Bin Khalifa University Scholarship'' ''Full funding + stipend''
        ''March 1, 2025'' ''Admission to HBKU program''
        ''For graduate studies at HBKU'',
      scholarship ''Qatar National Research Fund'' ''$50,000 grant''
        ''April 30, 2025'' ''Research proposal, PhD level''
        ''For doctoral research in Qatar'',
      scholarship ''Texas A&M Qatar Scholarship'' ''Full tuition''
        ''January 15, 2025'' ''Engineering students''
        ''For engineering programs at Texas A&M Qatar'',
      scholarship ''Carnegie Mellon Qatar Scholarship'' ''Partial to full tuition''
        ''January 1, 2025'' ''CS/Business admission''
        ''Merit-based for CMU Qatar students'']"

definition morocco_scholarships :: "pyval list" where
  "morocco_scholarships =
     [scholarship ''Fulbright Morocco Scholarship'' ''Full funding''
        ''February 1, 2025'' ''Moroccan citizen, leadership''
        ''US government scholarship for graduate studies'',
      scholarship ''Chevening Scholarship'' (''Full tuition + '' @ pound @ ''1,200/month'')
        ''November 7, 2025'' ''2+ years work experience''
        ''UK government scholarship'',
      scholarship ''DAAD Germany Scholarship'' (euro @ ''934/month'')
        ''October 15, 2025'' ''Good academics, English/German''
        ''German Academic Exchange Service'',
      scholarship ''Erasmus Mundus'' (euro @ ''25,000/year + tuition'')
        ''January 15, 2025'' ''Bachelor's degree''
        ''EU-funded scholarship'',
      scholarship ''Turkish Government Scholarship'' ''Full tuition + stipend''
        ''February 20, 2025'' ''Under 30 for Master's''
        (''T'' @ [CHR 0xC3, CHR 0xBC] @ ''rkiye Burslar'' @ [CHR 0xC4, CHR 0xB1]
         @ '' scholarship'')]"

definition default_scholarships :: "pyval list" where
  "default_scholarships =
     [scholarship ''Erasmus Mundus Joint Masters'' (euro @ ''25,000/year + tuition'')
        ''January 15, 2025'' ''Bachelor's degree, English proficiency''
        ''EU-funded scholarship for international students'',
      scholarship ''Chevening Scholarship UK'' (''Full tuition + '' @ pound @ ''1,200/month'')
        ''November 7, 2025'' ''2+ years work experience, leadership''
        ''UK government's global scholarship'',
      scholarship ''DAAD Scholarship Germany'' (euro @ ''934/month + insurance'')
        ''October 15, 2025'' ''Good academic record''
        ''German Academic Exchange Service'',
      scholarship ''Fulbright Foreign Student Program'' ''Full funding''
        ''February 1, 2025'' ''Bachelor's degree, leadership''
        ''US government scholarship'',
      scholarship ''Swiss Government Excellence Scholarship'' ''CHF 1,920/month''
        ''December 2024'' ''Research proposal''
        ''For doctoral research in Switzerland'']"

definition get_mock_scholarships :: "string \<Rightarrow> string \<Rightarrow> string \<Rightarrow> pyval" where
  "get_mock_scholarships country field level =
     (let country_lower = lower country
      in case map_of [(''france'', france_scholarships),
                      (''qatar'', qatar_scholarships),
                      (''morocco'', morocco_scholarships)] country_lower of
           Some found \<Rightarrow> PList found
         | None \<Rightarrow> PList default_scholarships)"

definition scholarships_request :: "string \<Rightarrow> string \<Rightarrow> request" where
  "scholarships_request country level =
     GET ''https://scholarshipsapi.com/search''
       [(''country'', PStr (lower country)), (''level'', PStr (lower level))] 10"

text \<open>
  What the \<^verbatim>\<open>if\<close>/\<open>elif\<close> after \<^verbatim>\<open>response.json()\<close> returns: \<open>Some\<close> is a
  \<^verbatim>\<open>return\<close>, \<open>None\<close> is falling out of the \<^verbatim>\<open>try\<close> block.
\<close>

fun live_result :: "pyval \<Rightarrow> pyexn + pyval option" where
  "live_result (PList vs) = Inr (if 0 < length vs then Some (PList vs) else None)"
| "live_result (PDict kvs) =
     (if ''scholarships'' \<in> set (map fst kvs)
      then sum_bind (py_item (PDict kvs) ''scholarships'') (\<lambda>v. Inr (Some v))
      else Inr None)"
| "live_result _ = Inr None"

definition search_scholarships_try :: "world \<Rightarrow> string \<Rightarrow> string \<Rightarrow> pyval option io" where
  "search_scholarships_try w country level =
     io_bind (send w (scholarships_request country level)) (\<lambda>response.
     io_bind (io_lift (raise_for_status response)) (\<lambda>_.
     io_bind (io_lift (json_body response)) (\<lambda>data.
       io_lift (live_result data))))"

definition search_scholarships :: "world \<Rightarrow> string \<Rightarrow> string \<Rightarrow> string \<Rightarrow> pyval io" where
  "search_scholarships w country field level =
     io_bind (try_except (search_scholarships_try w country level) (\<lambda>e. io_return None))
       (\<lambda>returned. case returned of
          Some v \<Rightarrow> io_return v
        | None \<Rightarrow> io_return (get_mock_scholarships country field level))"

section \<open>The agent-entry callback of \<^verbatim>\<open>agents.py\<close>\<close>

text \<open>
  \<^verbatim>\<open>callback_context.state\<close> is a dictionary from string keys to values, and the
  callback returns \<^verbatim>\<open>None\<close> or a \<^verbatim>\<open>types.Content\<close> with text parts and a role.
  What the callback prints is left out.
\<close>

type_synonym state = "string \<rightharpoonup> pyval"

record content =
  parts :: "string list"
  role :: string

text \<open>The truth value Python gives a value in \<^verbatim>\<open>if\<close>.\<close>

fun truthy :: "pyval \<Rightarrow> bool" where
  "truthy PNone = False"
| "truthy (PBool b) = b"
| "truthy (PInt n) = (n \<noteq> 0)"
| "truthy (PStr s) = (s \<noteq> [])"
| "truthy (PList vs) = (vs \<noteq> [])"
| "truthy (PDict kvs) = (kvs \<noteq> [])"

text \<open>\<^verbatim>\<open>x + 1\<close>: defined on integers and booleans, a \<^verbatim>\<open>TypeError\<close> elsewhere.\<close>

fun add_one :: "pyval \<Rightarrow> pyexn + pyval" where
  "add_one (PInt n) = Inr (PInt (n + 1))"
| "add_one (PBool b) = Inr (PInt ((if b then 1 else 0) + 1))"
| "add_one (PStr _) =
     Inl (OtherException (''can only concatenate str (not '' @ [CHR 0x22] @ ''int''
                          @ [CHR 0x22] @ '') to str''))"
| "add_one (PList _) =
     Inl (OtherException (''can only concatenate list (not '' @ [CHR 0x22] @ ''int''
                          @ [CHR 0x22] @ '') to list''))"
| "add_one x =
     Inl (OtherException (''unsupported operand type(s) for +: '' @ quoted (type_name x)
                          @ '' and '' @ quoted ''int''))"

text \<open>\<^verbatim>\<open>current_state.get(key, default)\<close> on the state dictionary.\<close>

definition state_get :: "state \<Rightarrow> string \<Rightarrow> pyval \<Rightarrow> pyval" where
  "state_get st k d = (case st k of Some v \<Rightarrow> v | None \<Rightarrow> d)"

text \<open>
  The callback reads a snapshot of the state (\<^verbatim>\<open>to_dict()\<close>), writes the counter and
  the agent's name, and only then looks at \<^verbatim>\<open>skip_processing\<close> in the snapshot.
\<close>

definition check_and_log_agent_entry ::
  "string \<Rightarrow> state \<Rightarrow> pyexn + state \<times> content option" where
  "check_and_log_agent_entry agent_name st =
     (let current_state = st
      in sum_bind (add_one (state_get current_state ''user:agent_call_count'' (PInt 0)))
           (\<lambda>call_count.
              let st' = st(''user:agent_call_count'' \<mapsto> call_count,
                           ''temp:current_agent'' \<mapsto> PStr agent_name)
              in if truthy (state_get current_state ''skip_processing'' (PBool False))
                 then Inr (st', Some \<lparr>parts = [''Agent '' @ agent_name @ '' skipped.''],
                                      role = ''model''\<rparr>)
                 else Inr (st', None)))"

text \<open>
  \<^verbatim>\<open>root_agent\<close> registers the callback as its \<^verbatim>\<open>before_agent_callback\<close>. The
  framework calls it once when the agent is entered: a returned \<^verbatim>\<open>Content\<close> becomes the
  agent's answer and the agent does not run; on \<^verbatim>\<open>None\<close> the agent runs; an exception
  of the callback ends the turn. The agent's own run (its model calls, tool calls and
  sub-agents) is the parameter \<open>h\<close>: it transforms the state, and reports what it did.
\<close>

datatype activity = HandlerBody string | ToolCall string | GenerationCall string

type_synonym handler = "state \<Rightarrow> state \<times> activity list \<times> content"

definition dispatch ::
  "handler \<Rightarrow> string \<Rightarrow> state \<Rightarrow> pyexn + state \<times> activity list \<times> content" where
  "dispatch h agent_name st =
     (case check_and_log_agent_entry agent_name st of
        Inl e \<Rightarrow> Inl e
      | Inr (st', Some skipped) \<Rightarrow> Inr (st', [], skipped)
      | Inr (st', None) \<Rightarrow> Inr (h st'))"

text \<open>
  The turns of a session, one after the other: each turn enters through the callback,
  under the agent's name, and reaches the handler given with it.
\<close>

fun run_turns :: "(string \<times> handler) list \<Rightarrow> state \<Rightarrow> pyexn + state" where
  "run_turns [] st = Inr st"
| "run_turns ((agent_name, h) # rest) st =
     (case dispatch h agent_name st of
        Inl e \<Rightarrow> Inl e
      | Inr (st', _, _) \<Rightarrow> run_turns rest st')"

section \<open>Notions the properties are stated with\<close>


text \<open>A network that answers every request with status 404.\<close>

definition answers_not_found :: world where
  "answers_not_found =
     (\<lambda>rq. Inr \<lparr>status_code = 404, error_str = ''404 Client Error: Not Found for url'',
                 json_body = Inl (RequestException ''Expecting value: line 1 column 1 (char 0)'')\<rparr>)"


text \<open>The field names of a dictionary, in order (none for any other value).\<close>

fun fields :: "pyval \<Rightarrow> string list" where
  "fields (PDict kvs) = map fst kvs"
| "fields _ = []"



text \<open>A handler that leaves the call counter of the state alone.\<close>

definition keeps_counter :: "handler \<Rightarrow> bool" where
  "keeps_counter h =
     (\<forall>st. fst (h st) ''user:agent_call_count'' = st ''user:agent_call_count'')"

text \<open>A handler that answers without touching the state, and a session that just started.\<close>

definition plain_answer :: handler where
  "plain_answer = (\<lambda>st. (st, [HandlerBody ''root_agent'', GenerationCall ''root_agent''],
                          \<lparr>parts = [''ok''], role = ''model''\<rparr>))"

definition fresh_session :: state where
  "fresh_session = Map.empty"

definition read_key :: "string \<Rightarrow> pyexn + state \<Rightarrow> pyval option" where
  "read_key k r = (case r of Inl e \<Rightarrow> None | Inr st \<Rightarrow> st k)"

text \<open>The five fields of a scholarship entry.\<close>

definition scholarship_fields :: "string list" where
  "scholarship_fields = [''name'', ''amount'', ''deadline'', ''requirements'', ''description'']"

text \<open>A session whose state holds \<^verbatim>\<open>skip_processing = True\<close> and nothing else.\<close>

definition skipping_session :: state where
  "skipping_session = [''skip_processing'' \<mapsto> PBool True]"










section \<open>Lemmas shared by the properties\<close>






















lemma fields_scholarship [simp]: "fields (scholarship a b c d e) = scholarship_fields"
  by (simp add: scholarship_def scholarship_fields_def)




lemma mock_ignores_field_level:
  "get_mock_scholarships country f1 l1 = get_mock_scholarships country f2 l2"
  by (simp add: get_mock_scholarships_def)

lemma entry_counts:
  assumes "state_get st ''user:agent_call_count'' (PInt 0) = PInt k"
  shows "\<exists>st' r. check_and_log_agent_entry name st = Inr (st', r) \<and>
           st' ''user:agent_call_count'' = Some (PInt (k + 1)) \<and>
           (r = None) = (\<not> truthy (state_get st ''skip_processing'' (PBool False)))"
  using assms by (simp add: check_and_log_agent_entry_def sum_bind_def Let_def)

lemma dispatch_counts:
  assumes "state_get st ''user:agent_call_count'' (PInt 0) = PInt k" and "keeps_counter h"
  shows "\<exists>st' acts c. dispatch h name st = Inr (st', acts, c) \<and>
           state_get st' ''user:agent_call_count'' (PInt 0) = PInt (k + 1)"
proof -
  from entry_counts [OF assms(1), of name] obtain st1 r where
    e: "check_and_log_agent_entry name st = Inr (st1, r)"
    and c: "st1 ''user:agent_call_count'' = Some (PInt (k + 1))" by blast
  show ?thesis
  proof (cases r)
    case None
    obtain st2 acts c2 where h: "h st1 = (st2, acts, c2)" by (cases "h st1") auto
    from assms(2) have "fst (h st1) ''user:agent_call_count'' = st1 ''user:agent_call_count''"
      by (simp add: keeps_counter_def)
    with h c have "st2 ''user:agent_call_count'' = Some (PInt (k + 1))" by simp
    with e None h show ?thesis by (simp add: dispatch_def state_get_def)
  next
    case (Some skipped)
    with e c show ?thesis by (simp add: dispatch_def state_get_def)
  qed
qed

lemma keeps_counter_plain: "keeps_counter plain_answer"
  by (simp add: keeps_counter_def plain_answer_def)

section \<open>The tools never raise (C5)\<close>




section \<open>The shapes of the weather tool's output (C6)\<close>




section \<open>The fallback dataset of the scholarship search (C7)\<close>




section \<open>The corrective message of the holiday tool (C8)\<close>

text \<open>
  C8. Whenever the holiday service answers the request for a country code with status
  404, \<^verbatim>\<open>get_public_holidays\<close> returns a single entry whose \<^verbatim>\<open>error\<close> field is the
  corrective message: it names the country code given and lists the example codes MA, FR,
  US, DE, GB and JP. The text of the HTTP error is not part of it.
\<close>

theorem not_found_is_corrective:
  assumes "w (holidays_request country_code year) = Inr response"
    and "status_code response = 404"
  shows "fst (run (get_public_holidays w country_code year)) =
           Inr (PList [PDict [(''error'', PStr (not_found_message country_code))]])
         \<and> not_found_message country_code =
             ''Country code '' @ quoted country_code @ '' not found. Use ISO 3166-1 alpha-2 codes like: ''
             @ ''MA (Morocco), FR (France), US (USA), DE (Germany), GB (UK), JP (Japan)''"
  using assms
  by (simp add: run_def get_public_holidays_def get_public_holidays_try_def try_except_def
        io_bind_def send_def io_lift_def io_return_def raise_for_status_def not_found_message_def)

text \<open>The theorem at a service that answers 404 and the code XX.\<close>

theorem not_found_is_corrective_witness:
  "answers_not_found (holidays_request ''XX'' 2025) =
     Inr \<lparr>status_code = 404, error_str = ''404 Client Error: Not Found for url'',
          json_body = Inl (RequestException ''Expecting value: line 1 column 1 (char 0)'')\<rparr>
   \<and> fst (run (get_public_holidays answers_not_found ''XX'' 2025)) =
       Inr (PList [PDict [(''error'', PStr (''Country code '' @ quoted ''XX'' @ '' not found. Use ISO 3166-1 alpha-2 codes like: MA (Morocco), FR (France), US (USA), DE (Germany), GB (UK), JP (Japan)''))]])"
  using not_found_is_corrective [of answers_not_found "''XX''" 2025
      "\<lparr>status_code = 404, error_str = ''404 Client Error: Not Found for url'',
          json_body = Inl (RequestException ''Expecting value: line 1 column 1 (char 0)'')\<rparr>"]
  by (simp add: answers_not_found_def not_found_message_def)

section \<open>The field argument does not matter (C9)\<close>

text \<open>
  C9. On the same network, \<^verbatim>\<open>search_scholarships\<close> gives the same result and sends
  the same request for any two values of \<^verbatim>\<open>field\<close>; and the built-in dataset depends on
  the country alone, whatever the field and the level.
\<close>

theorem field_is_ignored:
  "run (search_scholarships w country f1 level) = run (search_scholarships w country f2 level)
   \<and> get_mock_scholarships country f1 l1 = get_mock_scholarships country f2 l2"
proof
  show "run (search_scholarships w country f1 level) = run (search_scholarships w country f2 level)"
    unfolding search_scholarships_def mock_ignores_field_level [of country f1 level f2 level] ..
  show "get_mock_scholarships country f1 l1 = get_mock_scholarships country f2 l2"
    by (rule mock_ignores_field_level)
qed

section \<open>No API key, no request (C10)\<close>

text \<open>
  C10. When \<^verbatim>\<open>TAVILY_API_KEY\<close> is unset, \<^verbatim>\<open>search_city_info\<close> returns the dictionary
  with the single field \<^verbatim>\<open>error\<close> and the text "TAVILY_API_KEY not set in .env file",
  for every city and every network, and sends no request.
\<close>

theorem no_key_no_request:
  "run (search_city_info w None city) =
     (Inr (PDict [(''error'', PStr ''TAVILY_API_KEY not set in .env file'')]), [])"
  by (simp add: run_def search_city_info_def io_return_def)

section \<open>The call counter (C2)\<close>

text \<open>
  C2, as the code has it. The counter lives under the key
  \<^verbatim>\<open>user:agent_call_count\<close>. If it is absent or holds the integer \<open>k\<close> when the turns
  start (absent counts as 0), and no handler writes that key, then any sequence of turns
  runs through and afterwards the counter holds \<open>k\<close> plus the number of turns: whichever
  handler a turn reaches, and also when a turn is cut short by \<^verbatim>\<open>skip_processing\<close>.
\<close>

theorem call_count_after_turns:
  assumes "state_get st ''user:agent_call_count'' (PInt 0) = PInt k"
    and "\<forall>t \<in> set ts. keeps_counter (snd t)"
  shows "\<exists>st'. run_turns ts st = Inr st' \<and>
           state_get st' ''user:agent_call_count'' (PInt 0) = PInt (k + int (length ts))"
  using assms
proof (induction ts arbitrary: st k)
  case Nil
  then show ?case by simp
next
  case (Cons t ts)
  obtain name h where t: "t = (name, h)" by (cases t)
  with Cons.prems have kh: "keeps_counter h" by simp
  from dispatch_counts [OF Cons.prems(1) kh, of name] obtain st1 acts c where
    d: "dispatch h name st = Inr (st1, acts, c)"
    and c1: "state_get st1 ''user:agent_call_count'' (PInt 0) = PInt (k + 1)" by blast
  from Cons.prems have "\<forall>t \<in> set ts. keeps_counter (snd t)" by simp
  from Cons.IH [OF c1 this] obtain st' where
    "run_turns ts st1 = Inr st'"
    "state_get st' ''user:agent_call_count'' (PInt 0) = PInt (k + 1 + int (length ts))" by blast
  with d t show ?case by (simp add: add.assoc add.commute)
qed

text \<open>
  The theorem at a session that starts with \<^verbatim>\<open>skip_processing = True\<close>, so that both
  turns are cut short: the counter is 2 after two turns.
\<close>

theorem call_count_after_turns_witness:
  "state_get skipping_session ''user:agent_call_count'' (PInt 0) = PInt 0 \<and>
   keeps_counter plain_answer \<and>
   (\<exists>st'. run_turns [(''root_agent'', plain_answer), (''root_agent'', plain_answer)] skipping_session = Inr st' \<and>
       state_get st' ''user:agent_call_count'' (PInt 0) = PInt 2)"
  using call_count_after_turns [of skipping_session 0 "[(''root_agent'', plain_answer), (''root_agent'', plain_answer)]"]
  by (simp add: keeps_counter_plain skipping_session_def state_get_def)

text \<open>
  C2 as stated names the key \<^verbatim>\<open>user:call_count\<close>. After one turn of a fresh session
  that key is absent from the state; the count 1 is under \<^verbatim>\<open>user:agent_call_count\<close>.
\<close>

theorem call_count_key_absent:
  "read_key ''user:call_count'' (run_turns [(''root_agent'', plain_answer)] fresh_session) = None \<and>
   read_key ''user:agent_call_count'' (run_turns [(''root_agent'', plain_answer)] fresh_session) = Some (PInt 1)"
  by (simp add: read_key_def dispatch_def check_and_log_agent_entry_def sum_bind_def state_get_def fresh_session_def plain_answer_def)

section \<open>Skipping a turn (C3)\<close>




end
